theory Spec2Isabelle
  imports Main "HOL-Library.AList"
begin

section \<open>The multi-stage test step of ci-tools (package steps)\<close>

text \<open>
  A shallow embedding of \<^verbatim>\<open>multiStageTestStep\<close>: the step that runs the pre, test and post
  phases of a multi-stage test as pods on a cluster. Each Go function of the source becomes
  a HOL function of the same name. What the Go code reaches through interfaces, pointers
  to other packages or package-level helpers that live in other files (the cluster clients,
  the parameter source, the build configuration, \<^verbatim>\<open>resourcesFor\<close>, \<^verbatim>\<open>generateBasePod\<close>,
  \<^verbatim>\<open>createOrRestartPod\<close>, \<^verbatim>\<open>waitForPodCompletion\<close>, the notifiers) is a field of the
  record \<open>deps\<close>, so every theorem holds for all behaviours of those collaborators.

  The cluster is an explicit value of type \<open>'w\<close> threaded through every client call; every
  client call is also appended, with its result, to the trace \<open>calls\<close>.

  The model covers an invocation whose context is not cancelled while \<^verbatim>\<open>Run\<close> executes:
  the two goroutines of the source block on \<^verbatim>\<open>ctx.Done()\<close>; the body of the one in
  \<^verbatim>\<open>runPods\<close> is the separate function \<open>runPods_onCancel\<close>.
\<close>

subsection \<open>Errors\<close>

text \<open>
  A Go \<^verbatim>\<open>error\<close>. \<open>StatusError reason message\<close> is an API status error of the cluster
  client; \<open>Plain\<close> any other error of a collaborator; \<open>Errorf format args\<close> is
  \<^verbatim>\<open>fmt.Errorf(format, args...)\<close> kept unformatted, with \<open>Q\<close> the argument of a
  \<^verbatim>\<open>%q\<close> and \<open>V\<close> the error argument of a \<^verbatim>\<open>%v\<close>; \<open>Aggregate\<close> is the
  non-empty aggregate of \<^verbatim>\<open>utilerrors.NewAggregate\<close>.
\<close>

datatype error =
    StatusError string string
  | Plain string
  | Errorf string "fmtarg list"
  | Aggregate "error list"
and fmtarg = Q string | V error

text \<open>\<^verbatim>\<open>errors.IsNotFound\<close>: the error is an API status whose reason is \<^verbatim>\<open>NotFound\<close>.\<close>

fun IsNotFound :: "error \<Rightarrow> bool" where
  "IsNotFound (StatusError reason msg) = (reason = ''NotFound'')"
| "IsNotFound _ = False"

text \<open>
  \<^verbatim>\<open>utilerrors.NewAggregate\<close>: \<^verbatim>\<open>nil\<close> for an empty list, the aggregate of the list
  otherwise (the lists built by this file never hold a \<^verbatim>\<open>nil\<close> error).
\<close>

definition NewAggregate :: "error list \<Rightarrow> error option" where
  "NewAggregate errlist = (if errlist = [] then None else Some (Aggregate errlist))"

subsection \<open>Cluster objects\<close>

text \<open>The fields of the Kubernetes objects that the source reads or writes.\<close>

record EnvVar =
  ev_Name :: string
  ev_Value :: string

record VolumeMount =
  vm_Name :: string
  vm_MountPath :: string

datatype VolumeSource = NoSource | EmptyDir | SecretSource string

record Volume =
  vol_Name :: string
  vol_Source :: VolumeSource

record ResourceRequirements =
  rr_Requests :: "(string \<times> string) list"
  rr_Limits :: "(string \<times> string) list"

record Container =
  c_Name :: string
  c_Image :: string
  c_Command :: "string list"
  c_Args :: "string list"
  c_Env :: "EnvVar list"
  c_VolumeMounts :: "VolumeMount list"
  c_Resources :: ResourceRequirements
  c_TerminationMessagePolicy :: string

datatype OwnerReference = OwnerReference string string

text \<open>A pod; \<open>p_Labels = None\<close> is the \<^verbatim>\<open>nil\<close> map, on which an assignment panics.\<close>

record Pod =
  p_Name :: string
  p_Labels :: "(string \<times> string) list option"
  p_OwnerReferences :: "OwnerReference list"
  p_Volumes :: "Volume list"
  p_InitContainers :: "Container list"
  p_Containers :: "Container list"

record Secret =
  sec_Name :: string

datatype Object = SecretObject Secret | PodObject Pod

record TestCase =
  tc_Name :: string
  tc_FailureOutput :: "string option"

subsection \<open>The test definition\<close>

record LiteralTestStep =
  As :: string
  From :: string
  Commands :: string
  ArtifactDir :: string
  Resources :: ResourceRequirements

record JobSpec =
  Namespace :: string
  JobNameHash :: string
  Owner :: "OwnerReference option"

datatype StepLink =
    InternalImageLink string
  | ImagesReadyLink
  | ReleaseImagesLink
  | ExternalLink string

text \<open>
  The fields of \<^verbatim>\<open>multiStageTestStep\<close> that \<^verbatim>\<open>newMultiStageTestStep\<close> sets and nothing
  assigns afterwards. \<open>profile = []\<close> is the empty cluster profile.
\<close>

record multiStageTestStep =
  name :: string
  profile :: string
  artifactDir :: string
  jobSpec :: JobSpec
  pre :: "LiteralTestStep list"
  test :: "LiteralTestStep list"
  post :: "LiteralTestStep list"

subsection \<open>Collaborators and run state\<close>

datatype ContainerNotifier =
    NopNotifier
  | ArtifactWorker string string string "string list"

text \<open>One entry per call to a client or to a helper that talks to the cluster, with its result.\<close>

datatype call =
    SecretsGet string string "error option"
  | SecretsDelete string string "error option"
  | SecretsCreate string Secret "error option"
  | ParamsGet string "string \<times> error option"
  | CreateOrRestartPod string Pod "error option"
  | WaitForPodCompletion string string "error option"
  | PodsDeleteCollection string "(string \<times> string) list" "error option"

text \<open>
  The code outside the source file. \<open>'w\<close> is the state of everything external (the cluster,
  the parameter source), \<open>'n\<close> the state of a \<^verbatim>\<open>TestCaseNotifier\<close>.
\<close>

record ('w, 'n) deps =
  config_IsPipelineImage :: "string \<Rightarrow> bool"
  config_BuildsImage :: "string \<Rightarrow> bool"
  params_Get :: "string \<Rightarrow> 'w \<Rightarrow> (string \<times> error option) \<times> 'w"
  params_Links :: "string \<Rightarrow> StepLink list"
  secrets_Get :: "string \<Rightarrow> string \<Rightarrow> 'w \<Rightarrow> error option \<times> 'w"
  secrets_Delete :: "string \<Rightarrow> string \<Rightarrow> 'w \<Rightarrow> error option \<times> 'w"
  secrets_Create :: "string \<Rightarrow> Secret \<Rightarrow> 'w \<Rightarrow> error option \<times> 'w"
  pods_DeleteCollection :: "string \<Rightarrow> (string \<times> string) list \<Rightarrow> 'w \<Rightarrow> error option \<times> 'w"
  PipelineImageStream :: string
  ClusterType :: "string \<Rightarrow> string"
  resourcesFor :: "ResourceRequirements \<Rightarrow> error + ResourceRequirements"
  generateBasePod :: "JobSpec \<Rightarrow> string \<Rightarrow> string \<Rightarrow> string list \<Rightarrow> string
                       \<Rightarrow> ResourceRequirements \<Rightarrow> string \<Rightarrow> error + Pod"
  createOrRestartPod :: "string \<Rightarrow> Pod \<Rightarrow> 'w \<Rightarrow> error option \<times> 'w"
  waitForPodCompletion :: "string \<Rightarrow> string \<Rightarrow> 'n \<Rightarrow> 'w \<Rightarrow> (error option \<times> 'n) \<times> 'w"
  NewTestCaseNotifier :: "ContainerNotifier \<Rightarrow> 'n"
  notifier_SubTests :: "string \<Rightarrow> 'n \<Rightarrow> TestCase list"

text \<open>
  What one invocation mutates: the fields \<^verbatim>\<open>dry\<close>, \<^verbatim>\<open>releaseInitial\<close>,
  \<^verbatim>\<open>releaseLatest\<close> and \<^verbatim>\<open>subTests\<close> of the step, the objects handed to
  \<^verbatim>\<open>logger.AddObject\<close> (in order), the external world and the trace of calls.
\<close>

record 'w run_state =
  dry :: bool
  releaseInitial :: string
  releaseLatest :: string
  subTests :: "TestCase list"
  logged :: "Object list"
  cluster :: 'w
  calls :: "call list"

subsection \<open>Constants and small helpers\<close>

definition multiStageTestLabel :: string where
  "multiStageTestLabel = ''ci.openshift.io/multi-stage-test''"

definition clusterProfileMountPath :: string where
  "clusterProfileMountPath = ''/var/run/secrets/ci.openshift.io/cluster-profile''"

definition secretMountPath :: string where
  "secretMountPath = ''/var/run/secrets/ci.openshift.io/multi-stage''"

text \<open>\<^verbatim>\<open>coreapi.TerminationMessageFallbackToLogsOnError\<close>.\<close>

definition TerminationMessageFallbackToLogsOnError :: string where
  "TerminationMessageFallbackToLogsOnError = ''FallbackToLogsOnError''"

fun join_sep :: "string list \<Rightarrow> string" where
  "join_sep [] = []"
| "join_sep [e] = e"
| "join_sep (e # es) = e @ ''/'' @ join_sep es"

text \<open>
  \<^verbatim>\<open>filepath.Join\<close>: the non-empty elements joined by a slash. Go then applies
  \<^verbatim>\<open>Clean\<close>, the identity on the paths joined from the literals of the source; the one
  other join, of the artifact directory in \<open>podNotifier\<close>, only names the directory of an
  artifact worker, which no function here reads.
\<close>

definition filepath_Join :: "string list \<Rightarrow> string" where
  "filepath_Join elem = join_sep (filter (\<lambda>e. e \<noteq> []) elem)"

text \<open>\<^verbatim>\<open>strings.Replace(s, "_", "-", -1)\<close>.\<close>

definition replace_underscores :: "string \<Rightarrow> string" where
  "replace_underscores str = map (\<lambda>ch. if ch = CHR ''_'' then CHR ''-'' else ch) str"

definition profileSecretName :: "multiStageTestStep \<Rightarrow> string" where
  "profileSecretName s = name s @ ''-cluster-profile''"

definition Description :: "multiStageTestStep \<Rightarrow> string" where
  "Description s = ''Run multi-stage test '' @ name s"

subsection \<open>Dependency links\<close>

text \<open>The loop of \<^verbatim>\<open>Requires\<close> with its three variables \<^verbatim>\<open>ret\<close>, \<^verbatim>\<open>needsImages\<close>, \<^verbatim>\<open>needsRelease\<close>.\<close>

fun Requires_loop :: "('w, 'n) deps \<Rightarrow> LiteralTestStep list
    \<Rightarrow> StepLink list \<times> bool \<times> bool \<Rightarrow> StepLink list \<times> bool \<times> bool" where
  "Requires_loop d [] acc = acc"
| "Requires_loop d (step # steps) (ret, needsImages, needsRelease) =
     (if config_IsPipelineImage d (From step)
      then Requires_loop d steps (ret @ [InternalImageLink (From step)], needsImages, needsRelease)
      else if config_BuildsImage d (From step)
      then Requires_loop d steps (ret, True, needsRelease)
      else Requires_loop d steps (ret, needsImages, True))"

definition Requires :: "('w, 'n) deps \<Rightarrow> multiStageTestStep \<Rightarrow> StepLink list" where
  "Requires d s =
     (case Requires_loop d ((pre s @ test s) @ post s) ([], False, False) of
        (ret, needsImages, needsRelease) \<Rightarrow>
          let ret = (if needsImages then ret @ [ImagesReadyLink] else ret);
              ret = (if needsRelease then ret @ [ReleaseImagesLink] else ret);
              ret = (if profile s \<noteq> []
                     then (ret @ params_Links d ''RELEASE_IMAGE_INITIAL'')
                              @ params_Links d ''RELEASE_IMAGE_LATEST''
                     else ret)
          in ret)"

definition Creates :: "multiStageTestStep \<Rightarrow> StepLink list" where
  "Creates s = []"

definition Provides :: "multiStageTestStep \<Rightarrow> (string \<times> string) list \<times> StepLink option" where
  "Provides s = ([], None)"

subsection \<open>Pod synthesis\<close>

text \<open>
  The three functions below write to \<^verbatim>\<open>pod.Spec.Containers[0]\<close>; on a pod without
  containers Go panics with an index out of range, which is the result \<open>None\<close>.
\<close>

definition addSecretWrapper :: "Pod \<Rightarrow> Pod option" where
  "addSecretWrapper pod =
     (let volume = ''secret-wrapper'';
          dir = ''/tmp/secret-wrapper'';
          bin = filepath_Join [dir, ''secret-wrapper''];
          pod = pod\<lparr>p_Volumes := p_Volumes pod @ [\<lparr>vol_Name = volume, vol_Source = EmptyDir\<rparr>]\<rparr>;
          mount = \<lparr>vm_Name = volume, vm_MountPath = dir\<rparr>;
          pod = pod\<lparr>p_InitContainers := p_InitContainers pod @
                  [\<lparr>c_Name = ''cp-secret-wrapper'',
                    c_Image = ''registry.svc.ci.openshift.org/ci/secret-wrapper:latest'',
                    c_Command = [''cp''],
                    c_Args = [''/bin/secret-wrapper'', bin],
                    c_Env = [],
                    c_VolumeMounts = [mount],
                    c_Resources = \<lparr>rr_Requests = [], rr_Limits = []\<rparr>,
                    c_TerminationMessagePolicy = TerminationMessageFallbackToLogsOnError\<rparr>]\<rparr>
      in case p_Containers pod of
           [] \<Rightarrow> None
         | container # others \<Rightarrow>
             Some (pod\<lparr>p_Containers :=
               container\<lparr>c_Args := c_Command container @ c_Args container,
                         c_Command := [bin],
                         c_VolumeMounts := c_VolumeMounts container @ [mount]\<rparr> # others\<rparr>))"

definition addSecret :: "string \<Rightarrow> Pod \<Rightarrow> Pod option" where
  "addSecret secret pod =
     (let pod = pod\<lparr>p_Volumes := p_Volumes pod @
                  [\<lparr>vol_Name = secret, vol_Source = SecretSource secret\<rparr>]\<rparr>
      in case p_Containers pod of
           [] \<Rightarrow> None
         | container # others \<Rightarrow>
             Some (pod\<lparr>p_Containers :=
               container\<lparr>c_VolumeMounts := c_VolumeMounts container @
                   [\<lparr>vm_Name = secret, vm_MountPath = secretMountPath\<rparr>]\<rparr> # others\<rparr>))"

definition addProfile :: "('w, 'n) deps \<Rightarrow> string \<Rightarrow> string \<Rightarrow> Pod \<Rightarrow> Pod option" where
  "addProfile d nm prof pod =
     (let volumeName = ''cluster-profile'';
          pod = pod\<lparr>p_Volumes := p_Volumes pod @
                  [\<lparr>vol_Name = volumeName, vol_Source = SecretSource nm\<rparr>]\<rparr>
      in case p_Containers pod of
           [] \<Rightarrow> None
         | container # others \<Rightarrow>
             Some (pod\<lparr>p_Containers :=
               container\<lparr>c_VolumeMounts := c_VolumeMounts container @
                             [\<lparr>vm_Name = volumeName, vm_MountPath = clusterProfileMountPath\<rparr>],
                         c_Env := c_Env container @
                             [\<lparr>ev_Name = ''CLUSTER_TYPE'', ev_Value = ClusterType d prof\<rparr>]\<rparr>
               # others\<rparr>))"

text \<open>\<^verbatim>\<open>container.Env = append(container.Env, vars...)\<close> for \<^verbatim>\<open>container := &pod.Spec.Containers[0]\<close>.\<close>

definition appendEnv :: "EnvVar list \<Rightarrow> Pod \<Rightarrow> Pod option" where
  "appendEnv vars pod =
     (case p_Containers pod of
        [] \<Rightarrow> None
      | container # others \<Rightarrow>
          Some (pod\<lparr>p_Containers := container\<lparr>c_Env := c_Env container @ vars\<rparr> # others\<rparr>))"

text \<open>The image reference of a step, as the first lines of the loop body compute it.\<close>

definition stepImage :: "('w, 'n) deps \<Rightarrow> LiteralTestStep \<Rightarrow> string" where
  "stepImage d step =
     (let image = From step
      in if config_IsPipelineImage d image then PipelineImageStream d @ '':'' @ image else image)"

definition stepCommand :: "LiteralTestStep \<Rightarrow> string list" where
  "stepCommand step =
     [''/bin/bash'', ''-c'',
      ''#!/bin/bash'' @ [CHR 0x0A] @ ''set -eu'' @ [CHR 0x0A] @ Commands step]"

text \<open>
  What the body of the loop of \<^verbatim>\<open>generatePods\<close> does to the pod that
  \<^verbatim>\<open>generateBasePod\<close> returned; \<open>None\<close> is a panic (a \<^verbatim>\<open>nil\<close> label map, or no
  container).
\<close>

definition decoratePod :: "('w, 'n) deps \<Rightarrow> multiStageTestStep \<Rightarrow> 'w run_state \<Rightarrow> Pod \<Rightarrow> Pod option" where
  "decoratePod d s st pod =
     (case p_Labels pod of
        None \<Rightarrow> None
      | Some labels \<Rightarrow>
     (case addSecretWrapper
             (pod\<lparr>p_Labels := Some (AList.update multiStageTestLabel (name s) labels)\<rparr>) of
        None \<Rightarrow> None
      | Some pod \<Rightarrow>
     (case appendEnv
             [\<lparr>ev_Name = ''NAMESPACE'', ev_Value = Namespace (jobSpec s)\<rparr>,
              \<lparr>ev_Name = ''JOB_NAME_SAFE'', ev_Value = replace_underscores (name s)\<rparr>,
              \<lparr>ev_Name = ''JOB_NAME_HASH'', ev_Value = JobNameHash (jobSpec s)\<rparr>] pod of
        None \<Rightarrow> None
      | Some pod \<Rightarrow>
     (let pod = (case Owner (jobSpec s) of
                   None \<Rightarrow> pod
                 | Some owner \<Rightarrow> pod\<lparr>p_OwnerReferences := p_OwnerReferences pod @ [owner]\<rparr>)
      in case (if profile s \<noteq> []
               then (case addProfile d (profileSecretName s) (profile s) pod of
                       None \<Rightarrow> None
                     | Some pod \<Rightarrow>
                         appendEnv
                           [\<lparr>ev_Name = ''KUBECONFIG'',
                             ev_Value = filepath_Join [secretMountPath, ''kubeconfig'']\<rparr>,
                            \<lparr>ev_Name = ''RELEASE_IMAGE_INITIAL'', ev_Value = releaseInitial st\<rparr>,
                            \<lparr>ev_Name = ''RELEASE_IMAGE_LATEST'', ev_Value = releaseLatest st\<rparr>] pod)
               else Some pod) of
           None \<Rightarrow> None
         | Some pod \<Rightarrow> addSecret (name s) pod))))"

text \<open>
  One iteration of the loop of \<^verbatim>\<open>generatePods\<close>: \<open>Some (Inl err)\<close> when the step adds
  an error and continues, \<open>Some (Inr pod)\<close> when it adds a pod, \<open>None\<close> when it panics.
\<close>

definition generatePod :: "('w, 'n) deps \<Rightarrow> multiStageTestStep \<Rightarrow> 'w run_state
    \<Rightarrow> LiteralTestStep \<Rightarrow> (error + Pod) option" where
  "generatePod d s st step =
     (case resourcesFor d (Resources step) of
        Inl err \<Rightarrow> Some (Inl err)
      | Inr resources \<Rightarrow>
     (case generateBasePod d (jobSpec s) (name s @ ''-'' @ As step) (As step)
             (stepCommand step) (stepImage d step) resources (ArtifactDir step) of
        Inl err \<Rightarrow> Some (Inl err)
      | Inr pod \<Rightarrow> map_option Inr (decoratePod d s st pod)))"

fun generatePods_loop :: "('w, 'n) deps \<Rightarrow> multiStageTestStep \<Rightarrow> 'w run_state
    \<Rightarrow> LiteralTestStep list \<Rightarrow> Pod list \<Rightarrow> error list \<Rightarrow> (Pod list \<times> error list) option" where
  "generatePods_loop d s st [] ret errs = Some (ret, errs)"
| "generatePods_loop d s st (step # steps) ret errs =
     (case generatePod d s st step of
        None \<Rightarrow> None
      | Some (Inl err) \<Rightarrow> generatePods_loop d s st steps ret (errs @ [err])
      | Some (Inr pod) \<Rightarrow> generatePods_loop d s st steps (ret @ [pod]) errs)"

definition generatePods :: "('w, 'n) deps \<Rightarrow> multiStageTestStep \<Rightarrow> 'w run_state
    \<Rightarrow> LiteralTestStep list \<Rightarrow> (Pod list \<times> error option) option" where
  "generatePods d s st steps =
     (case generatePods_loop d s st steps [] [] of
        None \<Rightarrow> None
      | Some (ret, errs) \<Rightarrow> Some (ret, NewAggregate errs))"

subsection \<open>Secrets and pod execution\<close>

definition createSecret :: "('w, 'n) deps \<Rightarrow> multiStageTestStep \<Rightarrow> 'w run_state
    \<Rightarrow> error option \<times> 'w run_state" where
  "createSecret d s st =
     (let secret = \<lparr>sec_Name = name s\<rparr>
      in if dry st then (None, st\<lparr>logged := logged st @ [SecretObject secret]\<rparr>)
         else
           let ns = Namespace (jobSpec s);
               (del, w) = secrets_Delete d ns (name s) (cluster st);
               st = st\<lparr>cluster := w, calls := calls st @ [SecretsDelete ns (name s) del]\<rparr>
           in case (case del of None \<Rightarrow> None
                    | Some err \<Rightarrow> if \<not> IsNotFound err then Some err else None) of
                Some err \<Rightarrow>
                  (Some (Errorf ''cannot delete secret %q: %v'' [Q (name s), V err]), st)
              | None \<Rightarrow>
                  let (cr, w) = secrets_Create d ns secret (cluster st)
                  in (cr, st\<lparr>cluster := w, calls := calls st @ [SecretsCreate ns secret cr]\<rparr>))"

definition runPod :: "('w, 'n) deps \<Rightarrow> multiStageTestStep \<Rightarrow> Pod \<Rightarrow> 'n \<Rightarrow> 'w run_state
    \<Rightarrow> error option \<times> 'w run_state" where
  "runPod d s pod notifier st =
     (if dry st then (None, st\<lparr>logged := logged st @ [PodObject pod]\<rparr>)
      else
        let ns = Namespace (jobSpec s);
            (cr, w) = createOrRestartPod d ns pod (cluster st);
            st = st\<lparr>cluster := w, calls := calls st @ [CreateOrRestartPod ns pod cr]\<rparr>
        in case cr of
             Some err \<Rightarrow>
               (Some (Errorf ''failed to create or restart %q pod: %v'' [Q (p_Name pod), V err]), st)
           | None \<Rightarrow>
               let ((wt, notifier), w) = waitForPodCompletion d ns (p_Name pod) notifier (cluster st);
                   st = st\<lparr>cluster := w,
                           calls := calls st @ [WaitForPodCompletion ns (p_Name pod) wt]\<rparr>
               in case wt of
                    Some err \<Rightarrow>
                      (Some (Errorf ''%q pod %q failed: %v'' [Q (name s), Q (p_Name pod), V err]), st)
                  | None \<Rightarrow>
                      (None, st\<lparr>subTests := subTests st @
                         notifier_SubTests d (Description s @ '' - '' @ p_Name pod @ '' '') notifier\<rparr>))"

text \<open>
  The notifier that the loop of \<^verbatim>\<open>runPods\<close> picks for a pod: an artifact worker
  collecting from the first container when some container is named \<^verbatim>\<open>artifacts\<close>.
\<close>

definition podNotifier :: "multiStageTestStep \<Rightarrow> Pod \<Rightarrow> ContainerNotifier" where
  "podNotifier s pod =
     (case p_Containers pod of
        [] \<Rightarrow> NopNotifier
      | first # others \<Rightarrow>
          if ''artifacts'' \<in> set (map c_Name (p_Containers pod))
          then ArtifactWorker (filepath_Join [artifactDir s, c_Name first])
                 (Namespace (jobSpec s)) (p_Name pod) [c_Name first]
          else NopNotifier)"

fun runPods_loop :: "('w, 'n) deps \<Rightarrow> multiStageTestStep \<Rightarrow> bool \<Rightarrow> Pod list \<Rightarrow> error list
    \<Rightarrow> 'w run_state \<Rightarrow> error list \<times> 'w run_state" where
  "runPods_loop d s shortCircuit [] errs st = (errs, st)"
| "runPods_loop d s shortCircuit (pod # pods) errs st =
     (case runPod d s pod (NewTestCaseNotifier d (podNotifier s pod)) st of
        (None, st) \<Rightarrow> runPods_loop d s shortCircuit pods errs st
      | (Some err, st) \<Rightarrow>
          if shortCircuit then (errs @ [err], st)
          else runPods_loop d s shortCircuit pods (errs @ [err]) st)"

definition runPods :: "('w, 'n) deps \<Rightarrow> multiStageTestStep \<Rightarrow> Pod list \<Rightarrow> bool
    \<Rightarrow> 'w run_state \<Rightarrow> error option \<times> 'w run_state" where
  "runPods d s pods shortCircuit st =
     (case runPods_loop d s shortCircuit pods [] st of
        (errs, st) \<Rightarrow> (NewAggregate errs, st))"

definition deletePods :: "('w, 'n) deps \<Rightarrow> string \<Rightarrow> string \<Rightarrow> 'w run_state
    \<Rightarrow> error option \<times> 'w run_state" where
  "deletePods d ns tst st =
     (let selector = [(multiStageTestLabel, tst)];
          (err, w) = pods_DeleteCollection d ns selector (cluster st);
          st = st\<lparr>cluster := w, calls := calls st @ [PodsDeleteCollection ns selector err]\<rparr>
      in case err of
           None \<Rightarrow> (None, st)
         | Some e \<Rightarrow> if \<not> IsNotFound e then (Some e, st) else (None, st))"

text \<open>
  The body of the goroutine of \<^verbatim>\<open>runPods\<close> once the context is done: the error of
  \<^verbatim>\<open>deletePods\<close> is only printed.
\<close>

definition runPods_onCancel :: "('w, 'n) deps \<Rightarrow> multiStageTestStep \<Rightarrow> 'w run_state
    \<Rightarrow> 'w run_state" where
  "runPods_onCancel d s st =
     (if \<not> dry st then snd (deletePods d (Namespace (jobSpec s)) (name s) st) else st)"

definition runSteps :: "('w, 'n) deps \<Rightarrow> multiStageTestStep \<Rightarrow> LiteralTestStep list \<Rightarrow> bool
    \<Rightarrow> 'w run_state \<Rightarrow> (error option \<times> 'w run_state) option" where
  "runSteps d s steps shortCircuit st =
     (case generatePods d s st steps of
        None \<Rightarrow> None
      | Some (pods, Some err) \<Rightarrow> Some (Some err, st)
      | Some (pods, None) \<Rightarrow> Some (runPods d s pods shortCircuit st))"

subsection \<open>Run\<close>

text \<open>
  The block of \<^verbatim>\<open>Run\<close> guarded by \<^verbatim>\<open>s.profile != ""\<close>: the profile secret is read,
  then the two release parameters; each assignment stores the string that
  \<^verbatim>\<open>params.Get\<close> returned, also when it returned an error.
\<close>

definition checkProfile :: "('w, 'n) deps \<Rightarrow> multiStageTestStep \<Rightarrow> 'w run_state
    \<Rightarrow> error option \<times> 'w run_state" where
  "checkProfile d s st =
     (if profile s \<noteq> [] then
        let secret = profileSecretName s;
            ns = Namespace (jobSpec s);
            (got, w) = secrets_Get d ns secret (cluster st);
            st = st\<lparr>cluster := w, calls := calls st @ [SecretsGet ns secret got]\<rparr>
        in case got of
             Some err \<Rightarrow> (Some (Errorf ''could not find secret %q: %v'' [Q secret, V err]), st)
           | None \<Rightarrow>
               let (ini, w) = params_Get d ''RELEASE_IMAGE_INITIAL'' (cluster st);
                   st = st\<lparr>releaseInitial := fst ini, cluster := w,
                           calls := calls st @ [ParamsGet ''RELEASE_IMAGE_INITIAL'' ini]\<rparr>
               in case snd ini of
                    Some err \<Rightarrow> (Some err, st)
                  | None \<Rightarrow>
                      let (lat, w) = params_Get d ''RELEASE_IMAGE_LATEST'' (cluster st);
                          st = st\<lparr>releaseLatest := fst lat, cluster := w,
                                  calls := calls st @ [ParamsGet ''RELEASE_IMAGE_LATEST'' lat]\<rparr>
                      in (snd lat, st)
      else (None, st))"

text \<open>\<open>None\<close>: a phase panicked while its pods were synthesized.\<close>

definition Run :: "('w, 'n) deps \<Rightarrow> multiStageTestStep \<Rightarrow> bool \<Rightarrow> 'w run_state
    \<Rightarrow> (error option \<times> 'w run_state) option" where
  "Run d s dryRun st =
     (let st = st\<lparr>dry := dryRun\<rparr>
      in case checkProfile d s st of
           (Some err, st) \<Rightarrow> Some (Some err, st)
         | (None, st) \<Rightarrow>
      (case createSecret d s st of
           (Some err, st) \<Rightarrow> Some (Some (Errorf ''failed to create secret: %v'' [V err]), st)
         | (None, st) \<Rightarrow>
      (case (case runSteps d s (pre s) True st of
               None \<Rightarrow> None
             | Some (Some err, st) \<Rightarrow>
                 Some ([Errorf ''%q pre steps failed: %v'' [Q (name s), V err]], st)
             | Some (None, st) \<Rightarrow>
                 (case runSteps d s (test s) True st of
                    None \<Rightarrow> None
                  | Some (Some err, st) \<Rightarrow>
                      Some ([Errorf ''%q test steps failed: %v'' [Q (name s), V err]], st)
                  | Some (None, st) \<Rightarrow> Some ([], st))) of
           None \<Rightarrow> None
         | Some (errs, st) \<Rightarrow>
             (case runSteps d s (post s) False st of
                None \<Rightarrow> None
              | Some (Some err, st) \<Rightarrow>
                  Some (NewAggregate
                          (errs @ [Errorf ''%q post steps failed: %v'' [Q (name s), V err]]), st)
              | Some (None, st) \<Rightarrow> Some (NewAggregate errs, st)))))"

definition SubTests :: "'w run_state \<Rightarrow> TestCase list" where
  "SubTests st = subTests st"

subsection \<open>Reading the trace\<close>


subsection \<open>An in-memory cluster for concrete runs\<close>

text \<open>
  A small concrete instance of the collaborators, on which the functions above can be
  evaluated: the names of the secrets that exist, the names of the pods created so far, the
  names of the pods whose wait ends in failure, the names of the parameters that do not
  resolve, and the pairs of a verb (\<^verbatim>\<open>delete\<close>, \<^verbatim>\<open>create\<close>) and a secret name that the
  cluster forbids. A notifier is the list of test cases it
  has recorded; waiting for a pod records one test case for its container.
\<close>

record example_cluster =
  ec_secrets :: "string list"
  ec_pods :: "string list"
  ec_failing :: "string list"
  ec_unresolved :: "string list"
  ec_denied :: "(string \<times> string) list"

definition example_generateBasePod :: "JobSpec \<Rightarrow> string \<Rightarrow> string \<Rightarrow> string list \<Rightarrow> string
    \<Rightarrow> ResourceRequirements \<Rightarrow> string \<Rightarrow> error + Pod" where
  "example_generateBasePod js podName containerName command img resources dir =
     (if containerName = [] then Inl (Plain ''no container name'')
      else Inr \<lparr>p_Name = podName, p_Labels = Some [], p_OwnerReferences = [], p_Volumes = [],
                p_InitContainers = [],
                p_Containers = [\<lparr>c_Name = containerName, c_Image = img, c_Command = command,
                                  c_Args = [], c_Env = [], c_VolumeMounts = [],
                                  c_Resources = resources,
                                  c_TerminationMessagePolicy = ''FallbackToLogsOnError''\<rparr>]\<rparr>)"

definition example_waitForPodCompletion :: "string \<Rightarrow> string \<Rightarrow> TestCase list \<Rightarrow> example_cluster
    \<Rightarrow> (error option \<times> TestCase list) \<times> example_cluster" where
  "example_waitForPodCompletion ns podName notifier w =
     (if podName \<in> set (ec_failing w)
      then ((Some (Plain ''pod failed''),
             notifier @ [\<lparr>tc_Name = ''container test'', tc_FailureOutput = Some ''exit 1''\<rparr>]), w)
      else ((None, notifier @ [\<lparr>tc_Name = ''container test'', tc_FailureOutput = None\<rparr>]), w))"

definition example_deps :: "(example_cluster, TestCase list) deps" where
  "example_deps =
     \<lparr>config_IsPipelineImage = (\<lambda>img. img = ''src''),
      config_BuildsImage = (\<lambda>img. img = ''img''),
      params_Get = (\<lambda>nm w.
        if nm \<in> set (ec_unresolved w) then (([], Some (Plain (''unresolved '' @ nm))), w)
        else ((''rel-'' @ nm, None), w)),
      params_Links = (\<lambda>nm. [ExternalLink nm]),
      secrets_Get = (\<lambda>ns nm w.
        (if nm \<in> set (ec_secrets w) then None else Some (StatusError ''NotFound'' nm), w)),
      secrets_Delete = (\<lambda>ns nm w.
        if (''delete'', nm) \<in> set (ec_denied w) then (Some (StatusError ''Forbidden'' nm), w)
        else if nm \<in> set (ec_secrets w) then (None, w\<lparr>ec_secrets := removeAll nm (ec_secrets w)\<rparr>)
        else (Some (StatusError ''NotFound'' nm), w)),
      secrets_Create = (\<lambda>ns secret w.
        if (''create'', sec_Name secret) \<in> set (ec_denied w)
        then (Some (StatusError ''Forbidden'' (sec_Name secret)), w)
        else if sec_Name secret \<in> set (ec_secrets w)
        then (Some (StatusError ''AlreadyExists'' (sec_Name secret)), w)
        else (None, w\<lparr>ec_secrets := ec_secrets w @ [sec_Name secret]\<rparr>)),
      pods_DeleteCollection = (\<lambda>ns selector w. (None, w\<lparr>ec_pods := []\<rparr>)),
      PipelineImageStream = ''pipeline'',
      ClusterType = (\<lambda>prof. prof),
      resourcesFor = (\<lambda>r. case filter (\<lambda>kv. snd kv = ''bogus'') (rr_Requests r) of
                            [] \<Rightarrow> Inr r
                          | kv # others \<Rightarrow> Inl (Plain (''bad quantity for '' @ fst kv))),
      generateBasePod = example_generateBasePod,
      createOrRestartPod = (\<lambda>ns pod w. (None, w\<lparr>ec_pods := ec_pods w @ [p_Name pod]\<rparr>)),
      waitForPodCompletion = example_waitForPodCompletion,
      NewTestCaseNotifier = (\<lambda>notifier. []),
      notifier_SubTests = (\<lambda>prefix notifier.
        map (\<lambda>tc. tc\<lparr>tc_Name := prefix @ tc_Name tc\<rparr>) notifier)\<rparr>"

definition example_step :: "string \<Rightarrow> string \<Rightarrow> LiteralTestStep" where
  "example_step nm img =
     \<lparr>As = nm, From = img, Commands = ''make'', ArtifactDir = [],
      Resources = \<lparr>rr_Requests = [], rr_Limits = []\<rparr>\<rparr>"

text \<open>A step whose request for one kind of resource does not parse.\<close>

definition example_bad_step :: "string \<Rightarrow> string \<Rightarrow> LiteralTestStep" where
  "example_bad_step nm kind =
     \<lparr>As = nm, From = ''img'', Commands = ''make'', ArtifactDir = [],
      Resources = \<lparr>rr_Requests = [(kind, ''bogus'')], rr_Limits = []\<rparr>\<rparr>"

text \<open>A bare pod, for the functions that execute pods whatever their contents.\<close>

definition example_pod :: "string \<Rightarrow> Pod" where
  "example_pod nm =
     \<lparr>p_Name = nm, p_Labels = None, p_OwnerReferences = [], p_Volumes = [],
      p_InitContainers = [], p_Containers = []\<rparr>"

definition example_test :: "string \<Rightarrow> LiteralTestStep list \<Rightarrow> LiteralTestStep list
    \<Rightarrow> LiteralTestStep list \<Rightarrow> multiStageTestStep" where
  "example_test prof pr ts po =
     \<lparr>name = ''e2e'', profile = prof, artifactDir = [],
      jobSpec = \<lparr>Namespace = ''ns'', JobNameHash = ''h'', Owner = None\<rparr>,
      pre = pr, test = ts, post = po\<rparr>"

definition example_state_in :: "example_cluster \<Rightarrow> example_cluster run_state" where
  "example_state_in w =
     \<lparr>dry = False, releaseInitial = [], releaseLatest = [], subTests = [], logged = [],
      cluster = w, calls = []\<rparr>"

definition example_state :: "string list \<Rightarrow> string list \<Rightarrow> example_cluster run_state" where
  "example_state secrets failing =
     example_state_in \<lparr>ec_secrets = secrets, ec_pods = [], ec_failing = failing,
                       ec_unresolved = [], ec_denied = []\<rparr>"

section \<open>Properties\<close>

subsection \<open>Pod decoration\<close>

lemma wrapper_bin:
  "filepath_Join [''/tmp/secret-wrapper'', ''secret-wrapper''] = ''/tmp/secret-wrapper/secret-wrapper''"
  by (simp add: filepath_Join_def)

lemma appendEnv_Some:
  "appendEnv vars pod = Some pod' \<longleftrightarrow>
     (\<exists>c cs. p_Containers pod = c # cs \<and>
        pod' = pod\<lparr>p_Containers := c\<lparr>c_Env := c_Env c @ vars\<rparr> # cs\<rparr>)"
  by (auto simp: appendEnv_def split: list.splits)

lemma addSecret_Some:
  "addSecret secret pod = Some pod' \<longleftrightarrow>
     (\<exists>c cs. p_Containers pod = c # cs \<and>
        pod' = pod\<lparr>p_Volumes := p_Volumes pod @
                     [\<lparr>vol_Name = secret, vol_Source = SecretSource secret\<rparr>],
                   p_Containers := c\<lparr>c_VolumeMounts := c_VolumeMounts c @
                     [\<lparr>vm_Name = secret, vm_MountPath = secretMountPath\<rparr>]\<rparr> # cs\<rparr>)"
  by (auto simp: addSecret_def Let_def split: list.splits)

lemma addProfile_Some:
  "addProfile d nm prof pod = Some pod' \<longleftrightarrow>
     (\<exists>c cs. p_Containers pod = c # cs \<and>
        pod' = pod\<lparr>p_Volumes := p_Volumes pod @
                     [\<lparr>vol_Name = ''cluster-profile'', vol_Source = SecretSource nm\<rparr>],
                   p_Containers := c\<lparr>c_VolumeMounts := c_VolumeMounts c @
                       [\<lparr>vm_Name = ''cluster-profile'', vm_MountPath = clusterProfileMountPath\<rparr>],
                     c_Env := c_Env c @
                       [\<lparr>ev_Name = ''CLUSTER_TYPE'', ev_Value = ClusterType d prof\<rparr>]\<rparr> # cs\<rparr>)"
  by (auto simp: addProfile_def Let_def split: list.splits)

lemma addSecretWrapper_Some:
  "addSecretWrapper pod = Some pod' \<longleftrightarrow>
     (\<exists>c cs. p_Containers pod = c # cs \<and>
        pod' = pod\<lparr>p_Volumes := p_Volumes pod @
                     [\<lparr>vol_Name = ''secret-wrapper'', vol_Source = EmptyDir\<rparr>],
                   p_InitContainers := p_InitContainers pod @
                     [\<lparr>c_Name = ''cp-secret-wrapper'',
                       c_Image = ''registry.svc.ci.openshift.org/ci/secret-wrapper:latest'',
                       c_Command = [''cp''],
                       c_Args = [''/bin/secret-wrapper'', ''/tmp/secret-wrapper/secret-wrapper''],
                       c_Env = [],
                       c_VolumeMounts =
                         [\<lparr>vm_Name = ''secret-wrapper'', vm_MountPath = ''/tmp/secret-wrapper''\<rparr>],
                       c_Resources = \<lparr>rr_Requests = [], rr_Limits = []\<rparr>,
                       c_TerminationMessagePolicy = TerminationMessageFallbackToLogsOnError\<rparr>],
                   p_Containers :=
                     c\<lparr>c_Args := c_Command c @ c_Args c,
                       c_Command := [''/tmp/secret-wrapper/secret-wrapper''],
                       c_VolumeMounts := c_VolumeMounts c @
                         [\<lparr>vm_Name = ''secret-wrapper'', vm_MountPath = ''/tmp/secret-wrapper''\<rparr>]\<rparr>
                     # cs\<rparr>)"
  by (auto simp: addSecretWrapper_def Let_def wrapper_bin split: list.splits)

text \<open>What \<open>decoratePod\<close> leaves of the base pod, field by field.\<close>

lemma decoratePod_Some:
  assumes "decoratePod d s st base = Some pod"
  shows "\<exists>labels c cs c'. p_Labels base = Some labels \<and> p_Containers base = c # cs
     \<and> p_Containers pod = c' # cs
     \<and> c_Name c' = c_Name c \<and> c_Image c' = c_Image c
     \<and> c_Args c' = c_Command c @ c_Args c
     \<and> c_Command c' = [''/tmp/secret-wrapper/secret-wrapper'']
     \<and> c_VolumeMounts c' = c_VolumeMounts c
          @ [\<lparr>vm_Name = ''secret-wrapper'', vm_MountPath = ''/tmp/secret-wrapper''\<rparr>]
          @ (if profile s \<noteq> []
             then [\<lparr>vm_Name = ''cluster-profile'', vm_MountPath = clusterProfileMountPath\<rparr>]
             else [])
          @ [\<lparr>vm_Name = name s, vm_MountPath = secretMountPath\<rparr>]
     \<and> p_Name pod = p_Name base
     \<and> p_Labels pod = Some (AList.update multiStageTestLabel (name s) labels)
     \<and> p_InitContainers pod = p_InitContainers base @
          [\<lparr>c_Name = ''cp-secret-wrapper'',
            c_Image = ''registry.svc.ci.openshift.org/ci/secret-wrapper:latest'',
            c_Command = [''cp''],
            c_Args = [''/bin/secret-wrapper'', ''/tmp/secret-wrapper/secret-wrapper''],
            c_Env = [],
            c_VolumeMounts =
              [\<lparr>vm_Name = ''secret-wrapper'', vm_MountPath = ''/tmp/secret-wrapper''\<rparr>],
            c_Resources = \<lparr>rr_Requests = [], rr_Limits = []\<rparr>,
            c_TerminationMessagePolicy = TerminationMessageFallbackToLogsOnError\<rparr>]
     \<and> p_Volumes pod = p_Volumes base
          @ [\<lparr>vol_Name = ''secret-wrapper'', vol_Source = EmptyDir\<rparr>]
          @ (if profile s \<noteq> []
             then [\<lparr>vol_Name = ''cluster-profile'',
                    vol_Source = SecretSource (profileSecretName s)\<rparr>]
             else [])
          @ [\<lparr>vol_Name = name s, vol_Source = SecretSource (name s)\<rparr>]"
  using assms
  by (auto simp: decoratePod_def addSecretWrapper_Some appendEnv_Some addProfile_Some
      addSecret_Some split: option.splits if_splits)

lemma generatePod_Inr:
  "generatePod d s st step = Some (Inr pod) \<longleftrightarrow>
     (\<exists>resources base. resourcesFor d (Resources step) = Inr resources
        \<and> generateBasePod d (jobSpec s) (name s @ ''-'' @ As step) (As step) (stepCommand step)
             (stepImage d step) resources (ArtifactDir step) = Inr base
        \<and> decoratePod d s st base = Some pod)"
  by (auto simp: generatePod_def split: sum.splits option.splits)

text \<open>
  C10. The secret-wrapper rewrite keeps the whole command line. For a step whose base pod
  is \<open>base\<close> and whose synthesized pod is \<open>pod\<close>: the first container of \<open>pod\<close> has as
  arguments the command of the first container of \<open>base\<close> followed by its arguments, and as
  command exactly the path of the wrapper binary in the \<^verbatim>\<open>secret-wrapper\<close> volume; the other
  containers are unchanged; exactly one init container is appended, which copies
  \<^verbatim>\<open>/bin/secret-wrapper\<close> to that path; the volume is an emptyDir volume of the pod and is
  mounted at \<^verbatim>\<open>/tmp/secret-wrapper\<close> in the init container and in the first container.
\<close>

theorem generatePod_secret_wrapper:
  assumes "resourcesFor d (Resources step) = Inr resources"
    and "generateBasePod d (jobSpec s) (name s @ ''-'' @ As step) (As step) (stepCommand step)
           (stepImage d step) resources (ArtifactDir step) = Inr base"
    and "generatePod d s st step = Some (Inr pod)"
  shows "\<exists>c cs c' init. p_Containers base = c # cs \<and> p_Containers pod = c' # cs
     \<and> c_Args c' = c_Command c @ c_Args c
     \<and> c_Command c' = [''/tmp/secret-wrapper/secret-wrapper'']
     \<and> p_InitContainers pod = p_InitContainers base @ [init]
     \<and> c_Command init = [''cp'']
     \<and> c_Args init = [''/bin/secret-wrapper'', ''/tmp/secret-wrapper/secret-wrapper'']
     \<and> c_VolumeMounts init = [\<lparr>vm_Name = ''secret-wrapper'', vm_MountPath = ''/tmp/secret-wrapper''\<rparr>]
     \<and> \<lparr>vm_Name = ''secret-wrapper'', vm_MountPath = ''/tmp/secret-wrapper''\<rparr>
           \<in> set (c_VolumeMounts c')
     \<and> \<lparr>vol_Name = ''secret-wrapper'', vol_Source = EmptyDir\<rparr> \<in> set (p_Volumes pod)"
proof -
  from assms have "decoratePod d s st base = Some pod"
    by (auto simp: generatePod_Inr)
  from decoratePod_Some [OF this] show ?thesis
    by (elim exE conjE) simp
qed

lemma example_pod_a:
  "generatePod example_deps (example_test [] [] [] []) (example_state [] [])
     (example_step ''a'' ''src'') = Some (Inr
        \<lparr>p_Name = ''e2e-a'',
         p_Labels = Some [(''ci.openshift.io/multi-stage-test'', ''e2e'')],
         p_OwnerReferences = [],
         p_Volumes = [\<lparr>vol_Name = ''secret-wrapper'', vol_Source = EmptyDir\<rparr>,
                      \<lparr>vol_Name = ''e2e'', vol_Source = SecretSource ''e2e''\<rparr>],
         p_InitContainers =
           [\<lparr>c_Name = ''cp-secret-wrapper'',
             c_Image = ''registry.svc.ci.openshift.org/ci/secret-wrapper:latest'',
             c_Command = [''cp''],
             c_Args = [''/bin/secret-wrapper'', ''/tmp/secret-wrapper/secret-wrapper''],
             c_Env = [],
             c_VolumeMounts =
               [\<lparr>vm_Name = ''secret-wrapper'', vm_MountPath = ''/tmp/secret-wrapper''\<rparr>],
             c_Resources = \<lparr>rr_Requests = [], rr_Limits = []\<rparr>,
             c_TerminationMessagePolicy = ''FallbackToLogsOnError''\<rparr>],
         p_Containers =
           [\<lparr>c_Name = ''a'', c_Image = ''pipeline:src'',
             c_Command = [''/tmp/secret-wrapper/secret-wrapper''],
             c_Args = [''/bin/bash'', ''-c'',
                       ''#!/bin/bash'' @ [CHR 0x0A] @ ''set -eu'' @ [CHR 0x0A] @ ''make''],
             c_Env = [\<lparr>ev_Name = ''NAMESPACE'', ev_Value = ''ns''\<rparr>,
                      \<lparr>ev_Name = ''JOB_NAME_SAFE'', ev_Value = ''e2e''\<rparr>,
                      \<lparr>ev_Name = ''JOB_NAME_HASH'', ev_Value = ''h''\<rparr>],
             c_VolumeMounts =
               [\<lparr>vm_Name = ''secret-wrapper'', vm_MountPath = ''/tmp/secret-wrapper''\<rparr>,
                \<lparr>vm_Name = ''e2e'',
                  vm_MountPath = ''/var/run/secrets/ci.openshift.io/multi-stage''\<rparr>],
             c_Resources = \<lparr>rr_Requests = [], rr_Limits = []\<rparr>,
             c_TerminationMessagePolicy = ''FallbackToLogsOnError''\<rparr>]\<rparr>)"
  by (simp add: generatePod_def decoratePod_def addSecretWrapper_def appendEnv_def
      addSecret_def example_deps_def example_test_def example_state_def example_state_in_def
      example_step_def example_generateBasePod_def stepCommand_def stepImage_def filepath_Join_def
      multiStageTestLabel_def secretMountPath_def replace_underscores_def
      TerminationMessageFallbackToLogsOnError_def Let_def)


theorem generatePod_secret_wrapper_witness:
  "\<exists>base pod.
     generateBasePod example_deps (jobSpec (example_test [] [] [] []))
       (name (example_test [] [] [] []) @ ''-'' @ As (example_step ''a'' ''src''))
       (As (example_step ''a'' ''src'')) (stepCommand (example_step ''a'' ''src''))
       (stepImage example_deps (example_step ''a'' ''src''))
       \<lparr>rr_Requests = [], rr_Limits = []\<rparr> (ArtifactDir (example_step ''a'' ''src'')) = Inr base
     \<and> generatePod example_deps (example_test [] [] [] []) (example_state [] [])
         (example_step ''a'' ''src'') = Some (Inr pod)
     \<and> (\<exists>c cs c' init. p_Containers base = c # cs \<and> p_Containers pod = c' # cs
         \<and> c_Args c' = c_Command c @ c_Args c
         \<and> c_Command c' = [''/tmp/secret-wrapper/secret-wrapper'']
         \<and> p_InitContainers pod = p_InitContainers base @ [init]
         \<and> c_Command init = [''cp'']
         \<and> c_Args init = [''/bin/secret-wrapper'', ''/tmp/secret-wrapper/secret-wrapper'']
         \<and> c_VolumeMounts init =
             [\<lparr>vm_Name = ''secret-wrapper'', vm_MountPath = ''/tmp/secret-wrapper''\<rparr>]
         \<and> \<lparr>vm_Name = ''secret-wrapper'', vm_MountPath = ''/tmp/secret-wrapper''\<rparr>
               \<in> set (c_VolumeMounts c')
         \<and> \<lparr>vol_Name = ''secret-wrapper'', vol_Source = EmptyDir\<rparr> \<in> set (p_Volumes pod))"
proof -
  have res: "resourcesFor example_deps (Resources (example_step ''a'' ''src''))
      = Inr \<lparr>rr_Requests = [], rr_Limits = []\<rparr>"
    by (simp add: example_deps_def example_step_def)
  obtain base where base:
    "generateBasePod example_deps (jobSpec (example_test [] [] [] []))
       (name (example_test [] [] [] []) @ ''-'' @ As (example_step ''a'' ''src''))
       (As (example_step ''a'' ''src'')) (stepCommand (example_step ''a'' ''src''))
       (stepImage example_deps (example_step ''a'' ''src''))
       \<lparr>rr_Requests = [], rr_Limits = []\<rparr> (ArtifactDir (example_step ''a'' ''src'')) = Inr base"
    by (simp add: example_deps_def example_step_def example_generateBasePod_def)
  note pod = example_pod_a
  from generatePod_secret_wrapper [OF res base pod] base pod show ?thesis
    by blast
qed

subsection \<open>Synthesis of the pods of a phase\<close>

lemma generatePods_loop_None:
  "generatePod d s st step = None \<Longrightarrow> step \<in> set steps
     \<Longrightarrow> generatePods_loop d s st steps ret errs = None"
  by (induction steps arbitrary: ret errs) (auto split: option.splits sum.splits)

lemma generatePods_loop_Some:
  "\<forall>step\<in>set steps. generatePod d s st step \<noteq> None
     \<Longrightarrow> generatePods_loop d s st steps ret errs =
         Some (ret @ [pod. step \<leftarrow> steps, Some (Inr pod) \<leftarrow> [generatePod d s st step]],
               errs @ [err. step \<leftarrow> steps, Some (Inl err) \<leftarrow> [generatePod d s st step]])"
  by (induction steps arbitrary: ret errs) (auto split: option.splits sum.splits)

lemma generatePods_Some:
  "\<forall>step\<in>set steps. generatePod d s st step \<noteq> None
     \<Longrightarrow> generatePods d s st steps =
         Some ([pod. step \<leftarrow> steps, Some (Inr pod) \<leftarrow> [generatePod d s st step]],
               NewAggregate [err. step \<leftarrow> steps, Some (Inl err) \<leftarrow> [generatePod d s st step]])"
  by (simp add: generatePods_def generatePods_loop_Some)

lemma generatePods_no_panic:
  "generatePods d s st steps = Some r \<Longrightarrow> \<forall>step\<in>set steps. generatePod d s st step \<noteq> None"
proof (rule ccontr)
  assume a: "generatePods d s st steps = Some r"
    and "\<not> (\<forall>step\<in>set steps. generatePod d s st step \<noteq> None)"
  then obtain step where "step \<in> set steps" "generatePod d s st step = None" by blast
  then have "generatePods_loop d s st steps [] [] = None"
    by (simp add: generatePods_loop_None)
  with a show False by (simp add: generatePods_def)
qed

lemma in_synthesized_pods:
  "pod \<in> set [pod. step \<leftarrow> steps, Some (Inr pod) \<leftarrow> [generatePod d s st step]]
     \<longleftrightarrow> (\<exists>step\<in>set steps. generatePod d s st step = Some (Inr pod))"
  by (induction steps) (auto split: option.splits sum.splits)

lemma in_synthesis_errors:
  "err \<in> set [err. step \<leftarrow> steps, Some (Inl err) \<leftarrow> [generatePod d s st step]]
     \<longleftrightarrow> (\<exists>step\<in>set steps. generatePod d s st step = Some (Inl err))"
  by (induction steps) (auto split: option.splits sum.splits)


text \<open>
  C5. Let \<^verbatim>\<open>generateBasePod\<close> put the image it is given into the first container of the pod it
  returns. Then for every step of a phase for which a pod is synthesized, that pod is among
  the pods of the phase and the image of its first container is the pipeline image stream
  name, a colon and the step's source when the source is a pipeline image, and the source
  string itself otherwise.
\<close>

theorem generatePods_image:
  assumes "\<And>js podName containerName command img resources dir base c cs.
             generateBasePod d js podName containerName command img resources dir = Inr base
               \<Longrightarrow> p_Containers base = c # cs \<Longrightarrow> c_Image c = img"
    and "generatePods d s st steps = Some (pods, r)"
    and "step \<in> set steps"
    and "generatePod d s st step = Some (Inr pod)"
  shows "pod \<in> set pods \<and>
     (\<exists>c cs. p_Containers pod = c # cs \<and>
        c_Image c = (if config_IsPipelineImage d (From step)
                     then PipelineImageStream d @ '':'' @ From step else From step))"
proof -
  from assms(2) have "\<forall>step\<in>set steps. generatePod d s st step \<noteq> None"
    by (rule generatePods_no_panic)
  from generatePods_Some [OF this] assms(2)
  have "pods = [pod. step \<leftarrow> steps, Some (Inr pod) \<leftarrow> [generatePod d s st step]]"
    by simp
  with assms(3,4) have mem: "pod \<in> set pods"
    by (simp only: in_synthesized_pods) blast
  from assms(4) obtain resources base where
    base: "generateBasePod d (jobSpec s) (name s @ ''-'' @ As step) (As step) (stepCommand step)
             (stepImage d step) resources (ArtifactDir step) = Inr base"
    and dec: "decoratePod d s st base = Some pod"
    by (auto simp: generatePod_Inr)
  from decoratePod_Some [OF dec] obtain c cs c' where
    cs: "p_Containers base = c # cs" "p_Containers pod = c' # cs" "c_Image c' = c_Image c"
    by blast
  from assms(1) [OF base cs(1)] have "c_Image c = stepImage d step" .
  with cs mem show ?thesis
    by (simp add: stepImage_def)
qed

lemma example_generateBasePod_image:
  "generateBasePod example_deps js podName containerName command img resources dir = Inr base
     \<Longrightarrow> p_Containers base = c # cs \<Longrightarrow> c_Image c = img"
  by (auto simp: example_deps_def example_generateBasePod_def split: if_splits)

lemmas example_defs =
  generatePod_def decoratePod_def addSecretWrapper_def appendEnv_def addSecret_def
  addProfile_def example_deps_def example_test_def example_state_def example_state_in_def
  example_step_def
  example_bad_step_def example_generateBasePod_def example_waitForPodCompletion_def
  stepCommand_def stepImage_def filepath_Join_def multiStageTestLabel_def secretMountPath_def
  clusterProfileMountPath_def replace_underscores_def profileSecretName_def
  TerminationMessageFallbackToLogsOnError_def Let_def

theorem generatePods_image_witness:
  "\<exists>pod c cs.
     generatePod example_deps (example_test [] [] [] []) (example_state [] [])
       (example_step ''a'' ''src'') = Some (Inr pod)
     \<and> pod \<in> set (fst (the (generatePods example_deps (example_test [] [] [] [])
          (example_state [] []) [example_step ''b'' ''quay.io/x'', example_step ''a'' ''src''])))
     \<and> p_Containers pod = c # cs \<and> c_Image c = ''pipeline:src''"
proof -
  obtain pods r where gen:
    "generatePods example_deps (example_test [] [] [] []) (example_state [] [])
       [example_step ''b'' ''quay.io/x'', example_step ''a'' ''src''] = Some (pods, r)"
    by (simp add: generatePods_def example_defs)
  have mem: "example_step ''a'' ''src''
      \<in> set [example_step ''b'' ''quay.io/x'', example_step ''a'' ''src'']"
    by simp
  from generatePods_image [OF example_generateBasePod_image gen mem example_pod_a]
  show ?thesis
    using gen example_pod_a by (simp add: example_deps_def example_step_def)
qed



subsection \<open>Dependency links\<close>

lemma Requires_loop_eq:
  "Requires_loop d steps (ret, needsImages, needsRelease) =
     (ret @ [InternalImageLink (From step). step \<leftarrow> steps, config_IsPipelineImage d (From step)],
      needsImages \<or> (\<exists>step\<in>set steps. \<not> config_IsPipelineImage d (From step)
                                      \<and> config_BuildsImage d (From step)),
      needsRelease \<or> (\<exists>step\<in>set steps. \<not> config_IsPipelineImage d (From step)
                                       \<and> \<not> config_BuildsImage d (From step)))"
  by (induction steps arbitrary: ret needsImages needsRelease) auto

text \<open>
  C7. \<^verbatim>\<open>Requires\<close> classifies the source of every step of the pre, test and post lists, in
  that order: it returns one internal-image link per step whose source is a pipeline image,
  then one images-ready link if some step's source is not a pipeline image but an image
  that is built, then one release-images link if some step's source is neither, then, when a
  cluster profile is set, the links of the parameters \<^verbatim>\<open>RELEASE_IMAGE_INITIAL\<close> and
  \<^verbatim>\<open>RELEASE_IMAGE_LATEST\<close>. \<^verbatim>\<open>Creates\<close> and \<^verbatim>\<open>Provides\<close> return nothing.
\<close>

theorem Requires_links:
  "Requires d s =
     [InternalImageLink (From step). step \<leftarrow> pre s @ test s @ post s,
                                     config_IsPipelineImage d (From step)]
     @ (if \<exists>step\<in>set (pre s @ test s @ post s).
             \<not> config_IsPipelineImage d (From step) \<and> config_BuildsImage d (From step)
        then [ImagesReadyLink] else [])
     @ (if \<exists>step\<in>set (pre s @ test s @ post s).
             \<not> config_IsPipelineImage d (From step) \<and> \<not> config_BuildsImage d (From step)
        then [ReleaseImagesLink] else [])
     @ (if profile s \<noteq> []
        then params_Links d ''RELEASE_IMAGE_INITIAL'' @ params_Links d ''RELEASE_IMAGE_LATEST''
        else [])
   \<and> Creates s = [] \<and> Provides s = ([], None)"
  by (simp add: Requires_def Requires_loop_eq Creates_def Provides_def Let_def)

theorem Requires_links_witness:
  "Requires example_deps
     (example_test ''aws'' [example_step ''a'' ''src''] [example_step ''b'' ''img'']
        [example_step ''c'' ''quay.io/x'', example_step ''d'' ''src''])
   = [InternalImageLink ''src'', InternalImageLink ''src'', ImagesReadyLink, ReleaseImagesLink,
      ExternalLink ''RELEASE_IMAGE_INITIAL'', ExternalLink ''RELEASE_IMAGE_LATEST'']"
  using Requires_links [of example_deps
     "example_test ''aws'' [example_step ''a'' ''src''] [example_step ''b'' ''img'']
        [example_step ''c'' ''quay.io/x'', example_step ''d'' ''src'']"]
  by (simp add: example_deps_def example_test_def example_step_def)

subsection \<open>The cluster-profile checks\<close>

text \<open>
  C4. With a cluster profile set, \<^verbatim>\<open>Run\<close> first reads the secret
  \<^verbatim>\<open><name>-cluster-profile\<close>. If that fails, \<^verbatim>\<open>Run\<close> returns an error built from the
  name of the secret and the error of the read, and that read is the only thing it has done:
  no other call, nothing logged, no subtest. If the read succeeds and the first release
  parameter does not resolve, \<^verbatim>\<open>Run\<close> returns that error after these two calls only;
  likewise for the second parameter after three calls.
\<close>

theorem Run_profile_fail_fast:
  assumes "profile s \<noteq> []"
    and "secrets_Get d (Namespace (jobSpec s)) (name s @ ''-cluster-profile'') (cluster st) = (got, w)"
  shows "(\<forall>err. got = Some err \<longrightarrow>
            Run d s dryRun st =
              Some (Some (Errorf ''could not find secret %q: %v''
                            [Q (name s @ ''-cluster-profile''), V err]),
                    st\<lparr>dry := dryRun, cluster := w,
                       calls := calls st @ [SecretsGet (Namespace (jobSpec s))
                                              (name s @ ''-cluster-profile'') (Some err)]\<rparr>))
     \<and> (\<forall>v err w'. got = None \<and> params_Get d ''RELEASE_IMAGE_INITIAL'' w = ((v, Some err), w') \<longrightarrow>
            Run d s dryRun st =
              Some (Some err,
                    st\<lparr>dry := dryRun, releaseInitial := v, cluster := w',
                       calls := calls st @ [SecretsGet (Namespace (jobSpec s))
                                              (name s @ ''-cluster-profile'') None,
                                            ParamsGet ''RELEASE_IMAGE_INITIAL'' (v, Some err)]\<rparr>))
     \<and> (\<forall>v w' v2 err w2. got = None \<and> params_Get d ''RELEASE_IMAGE_INITIAL'' w = ((v, None), w')
            \<and> params_Get d ''RELEASE_IMAGE_LATEST'' w' = ((v2, Some err), w2) \<longrightarrow>
            Run d s dryRun st =
              Some (Some err,
                    st\<lparr>dry := dryRun, releaseInitial := v, releaseLatest := v2, cluster := w2,
                       calls := calls st @ [SecretsGet (Namespace (jobSpec s))
                                              (name s @ ''-cluster-profile'') None,
                                            ParamsGet ''RELEASE_IMAGE_INITIAL'' (v, None),
                                            ParamsGet ''RELEASE_IMAGE_LATEST'' (v2, Some err)]\<rparr>))"
  using assms
  by (simp add: Run_def checkProfile_def profileSecretName_def Let_def)


theorem Run_profile_fail_fast_witness:
  "Run example_deps (example_test ''aws'' [example_step ''a'' ''src''] [] []) False
     (example_state [] [])
   = Some (Some (Errorf ''could not find secret %q: %v''
                   [Q ''e2e-cluster-profile'',
                    V (StatusError ''NotFound'' ''e2e-cluster-profile'')]),
           (example_state [] [])
             \<lparr>calls := [SecretsGet ''ns'' ''e2e-cluster-profile''
                          (Some (StatusError ''NotFound'' ''e2e-cluster-profile''))]\<rparr>)
   \<and> Run example_deps (example_test ''aws'' [example_step ''a'' ''src''] [] []) False
       (example_state_in
          \<lparr>ec_secrets = [''e2e-cluster-profile''], ec_pods = [], ec_failing = [],
            ec_unresolved = [''RELEASE_IMAGE_LATEST''], ec_denied = []\<rparr>)
     = Some (Some (Plain ''unresolved RELEASE_IMAGE_LATEST''),
             (example_state_in
                \<lparr>ec_secrets = [''e2e-cluster-profile''], ec_pods = [], ec_failing = [],
                  ec_unresolved = [''RELEASE_IMAGE_LATEST''], ec_denied = []\<rparr>)
               \<lparr>releaseInitial := ''rel-RELEASE_IMAGE_INITIAL'',
                calls := [SecretsGet ''ns'' ''e2e-cluster-profile'' None,
                          ParamsGet ''RELEASE_IMAGE_INITIAL'' (''rel-RELEASE_IMAGE_INITIAL'', None),
                          ParamsGet ''RELEASE_IMAGE_LATEST''
                            ([], Some (Plain ''unresolved RELEASE_IMAGE_LATEST''))]\<rparr>)"
proof
  show "Run example_deps (example_test ''aws'' [example_step ''a'' ''src''] [] []) False
     (example_state [] [])
   = Some (Some (Errorf ''could not find secret %q: %v''
                   [Q ''e2e-cluster-profile'',
                    V (StatusError ''NotFound'' ''e2e-cluster-profile'')]),
           (example_state [] [])
             \<lparr>calls := [SecretsGet ''ns'' ''e2e-cluster-profile''
                          (Some (StatusError ''NotFound'' ''e2e-cluster-profile''))]\<rparr>)"
    using Run_profile_fail_fast [of "example_test ''aws'' [example_step ''a'' ''src''] [] []"
        example_deps "example_state [] []"
        "Some (StatusError ''NotFound'' ''e2e-cluster-profile'')"
        "cluster (example_state [] [])" False]
    by (simp add: example_deps_def example_test_def example_state_def example_state_in_def)
next
  show "Run example_deps (example_test ''aws'' [example_step ''a'' ''src''] [] []) False
       (example_state_in
          \<lparr>ec_secrets = [''e2e-cluster-profile''], ec_pods = [], ec_failing = [],
            ec_unresolved = [''RELEASE_IMAGE_LATEST''], ec_denied = []\<rparr>)
     = Some (Some (Plain ''unresolved RELEASE_IMAGE_LATEST''),
             (example_state_in
                \<lparr>ec_secrets = [''e2e-cluster-profile''], ec_pods = [], ec_failing = [],
                  ec_unresolved = [''RELEASE_IMAGE_LATEST''], ec_denied = []\<rparr>)
               \<lparr>releaseInitial := ''rel-RELEASE_IMAGE_INITIAL'',
                calls := [SecretsGet ''ns'' ''e2e-cluster-profile'' None,
                          ParamsGet ''RELEASE_IMAGE_INITIAL'' (''rel-RELEASE_IMAGE_INITIAL'', None),
                          ParamsGet ''RELEASE_IMAGE_LATEST''
                            ([], Some (Plain ''unresolved RELEASE_IMAGE_LATEST''))]\<rparr>)"
    using Run_profile_fail_fast [of "example_test ''aws'' [example_step ''a'' ''src''] [] []"
        example_deps
        "example_state_in
          \<lparr>ec_secrets = [''e2e-cluster-profile''], ec_pods = [], ec_failing = [],
            ec_unresolved = [''RELEASE_IMAGE_LATEST''], ec_denied = []\<rparr>"
        None
        "\<lparr>ec_secrets = [''e2e-cluster-profile''], ec_pods = [], ec_failing = [],
          ec_unresolved = [''RELEASE_IMAGE_LATEST''], ec_denied = []\<rparr>" False]
    by (simp add: example_deps_def example_test_def example_state_in_def)
qed

subsection \<open>The results secret\<close>

lemma checkProfile_dry: "checkProfile d s st = (r, st') \<Longrightarrow> dry st' = dry st"
  by (auto simp: checkProfile_def Let_def split: if_splits prod.splits option.splits)

text \<open>
  C3, as the code has it. A non-dry-run invocation in which a cluster profile is set and its
  secret cannot be read returns before the results secret is touched: here the results secret
  \<^verbatim>\<open>e2e\<close> exists before and after, and the only call is the read of the profile secret.
\<close>

theorem Run_secret_untouched_counterexample:
  "Run example_deps (example_test ''aws'' [] [] []) False (example_state [''e2e''] [])
   = Some (Some (Errorf ''could not find secret %q: %v''
                   [Q ''e2e-cluster-profile'',
                    V (StatusError ''NotFound'' ''e2e-cluster-profile'')]),
           (example_state [''e2e''] [])
             \<lparr>calls := [SecretsGet ''ns'' ''e2e-cluster-profile''
                          (Some (StatusError ''NotFound'' ''e2e-cluster-profile''))]\<rparr>)"
  by (simp add: Run_def checkProfile_def profileSecretName_def example_deps_def
      example_test_def example_state_def example_state_in_def Let_def)

text \<open>
  C3, amended. In a non-dry-run invocation that gets past the cluster-profile checks (none
  when no profile is set), the next call deletes the secret named after the test. If the
  delete fails with an error other than not-found, nothing is created and \<^verbatim>\<open>Run\<close> fails
  with that error. Otherwise (no error, or not-found) the next call creates the secret, and
  \<^verbatim>\<open>createSecret\<close> returns what the create returned; if that is an error, \<^verbatim>\<open>Run\<close> fails
  with it.
\<close>

theorem Run_recreates_secret:
  assumes "checkProfile d s (st\<lparr>dry := False\<rparr>) = (None, st1)"
    and "secrets_Delete d (Namespace (jobSpec s)) (name s) (cluster st1) = (del, w1)"
    and "secrets_Create d (Namespace (jobSpec s)) \<lparr>sec_Name = name s\<rparr> w1 = (cr, w2)"
  shows "(\<forall>err. del = Some err \<and> \<not> IsNotFound err \<longrightarrow>
            Run d s False st =
              Some (Some (Errorf ''failed to create secret: %v''
                            [V (Errorf ''cannot delete secret %q: %v'' [Q (name s), V err])]),
                    st1\<lparr>cluster := w1,
                        calls := calls st1 @
                          [SecretsDelete (Namespace (jobSpec s)) (name s) del]\<rparr>))
     \<and> ((del = None \<or> (\<exists>err. del = Some err \<and> IsNotFound err)) \<longrightarrow>
            createSecret d s st1 =
              (cr, st1\<lparr>cluster := w2,
                       calls := calls st1 @
                         [SecretsDelete (Namespace (jobSpec s)) (name s) del,
                          SecretsCreate (Namespace (jobSpec s)) \<lparr>sec_Name = name s\<rparr> cr]\<rparr>)
            \<and> (\<forall>err. cr = Some err \<longrightarrow>
                  Run d s False st =
                    Some (Some (Errorf ''failed to create secret: %v'' [V err]),
                          st1\<lparr>cluster := w2,
                              calls := calls st1 @
                                [SecretsDelete (Namespace (jobSpec s)) (name s) del,
                                 SecretsCreate (Namespace (jobSpec s)) \<lparr>sec_Name = name s\<rparr>
                                   cr]\<rparr>)))"
proof -
  from checkProfile_dry [OF assms(1)] have nd: "\<not> dry st1" by simp
  show ?thesis
    using assms nd
    by (auto simp: Run_def createSecret_def Let_def)
qed


theorem Run_recreates_secret_witness:
  "createSecret example_deps (example_test [] [] [] []) (example_state [] [])
   = (None, example_state_in
              \<lparr>ec_secrets = [''e2e''], ec_pods = [], ec_failing = [], ec_unresolved = [],
                ec_denied = []\<rparr>
            \<lparr>calls := [SecretsDelete ''ns'' ''e2e'' (Some (StatusError ''NotFound'' ''e2e'')),
                       SecretsCreate ''ns'' \<lparr>sec_Name = ''e2e''\<rparr> None]\<rparr>)
   \<and> Run example_deps (example_test [] [] [] []) False
       (example_state_in \<lparr>ec_secrets = [''e2e''], ec_pods = [], ec_failing = [],
                           ec_unresolved = [], ec_denied = [(''delete'', ''e2e'')]\<rparr>)
     = Some (Some (Errorf ''failed to create secret: %v''
                     [V (Errorf ''cannot delete secret %q: %v''
                           [Q ''e2e'', V (StatusError ''Forbidden'' ''e2e'')])]),
             example_state_in \<lparr>ec_secrets = [''e2e''], ec_pods = [], ec_failing = [],
                                ec_unresolved = [], ec_denied = [(''delete'', ''e2e'')]\<rparr>
               \<lparr>calls := [SecretsDelete ''ns'' ''e2e'' (Some (StatusError ''Forbidden'' ''e2e''))]\<rparr>)
   \<and> Run example_deps (example_test [] [] [] []) False
       (example_state_in \<lparr>ec_secrets = [''e2e''], ec_pods = [], ec_failing = [],
                           ec_unresolved = [], ec_denied = [(''create'', ''e2e'')]\<rparr>)
     = Some (Some (Errorf ''failed to create secret: %v'' [V (StatusError ''Forbidden'' ''e2e'')]),
             example_state_in \<lparr>ec_secrets = [], ec_pods = [], ec_failing = [],
                                ec_unresolved = [], ec_denied = [(''create'', ''e2e'')]\<rparr>
               \<lparr>calls := [SecretsDelete ''ns'' ''e2e'' None,
                          SecretsCreate ''ns'' \<lparr>sec_Name = ''e2e''\<rparr>
                            (Some (StatusError ''Forbidden'' ''e2e''))]\<rparr>)"
proof (intro conjI)
  show "createSecret example_deps (example_test [] [] [] []) (example_state [] [])
   = (None, example_state_in
              \<lparr>ec_secrets = [''e2e''], ec_pods = [], ec_failing = [], ec_unresolved = [],
                ec_denied = []\<rparr>
            \<lparr>calls := [SecretsDelete ''ns'' ''e2e'' (Some (StatusError ''NotFound'' ''e2e'')),
                       SecretsCreate ''ns'' \<lparr>sec_Name = ''e2e''\<rparr> None]\<rparr>)"
    using Run_recreates_secret [where d = example_deps and s = "example_test [] [] [] []"
        and st = "example_state [] []" and ?st1.0 = "example_state [] []"
        and del = "Some (StatusError ''NotFound'' ''e2e'')"
        and ?w1.0 = "cluster (example_state [] [])" and cr = None
        and ?w2.0 = "\<lparr>ec_secrets = [''e2e''], ec_pods = [], ec_failing = [],
                       ec_unresolved = [], ec_denied = []\<rparr>"]
    by (simp add: checkProfile_def example_deps_def example_test_def example_state_def
        example_state_in_def)
next
  show "Run example_deps (example_test [] [] [] []) False
       (example_state_in \<lparr>ec_secrets = [''e2e''], ec_pods = [], ec_failing = [],
                           ec_unresolved = [], ec_denied = [(''delete'', ''e2e'')]\<rparr>)
     = Some (Some (Errorf ''failed to create secret: %v''
                     [V (Errorf ''cannot delete secret %q: %v''
                           [Q ''e2e'', V (StatusError ''Forbidden'' ''e2e'')])]),
             example_state_in \<lparr>ec_secrets = [''e2e''], ec_pods = [], ec_failing = [],
                                ec_unresolved = [], ec_denied = [(''delete'', ''e2e'')]\<rparr>
               \<lparr>calls := [SecretsDelete ''ns'' ''e2e'' (Some (StatusError ''Forbidden'' ''e2e''))]\<rparr>)"
    using Run_recreates_secret [where d = example_deps and s = "example_test [] [] [] []"
        and st = "example_state_in \<lparr>ec_secrets = [''e2e''], ec_pods = [], ec_failing = [],
                           ec_unresolved = [], ec_denied = [(''delete'', ''e2e'')]\<rparr>"
        and ?st1.0 = "example_state_in \<lparr>ec_secrets = [''e2e''], ec_pods = [], ec_failing = [],
                           ec_unresolved = [], ec_denied = [(''delete'', ''e2e'')]\<rparr>"
        and del = "Some (StatusError ''Forbidden'' ''e2e'')"
        and ?w1.0 = "\<lparr>ec_secrets = [''e2e''], ec_pods = [], ec_failing = [],
                           ec_unresolved = [], ec_denied = [(''delete'', ''e2e'')]\<rparr>"
        and cr = "Some (StatusError ''AlreadyExists'' ''e2e'')"
        and ?w2.0 = "\<lparr>ec_secrets = [''e2e''], ec_pods = [], ec_failing = [],
                           ec_unresolved = [], ec_denied = [(''delete'', ''e2e'')]\<rparr>"]
    by (simp add: checkProfile_def example_deps_def example_test_def example_state_in_def)
next
  show "Run example_deps (example_test [] [] [] []) False
       (example_state_in \<lparr>ec_secrets = [''e2e''], ec_pods = [], ec_failing = [],
                           ec_unresolved = [], ec_denied = [(''create'', ''e2e'')]\<rparr>)
     = Some (Some (Errorf ''failed to create secret: %v'' [V (StatusError ''Forbidden'' ''e2e'')]),
             example_state_in \<lparr>ec_secrets = [], ec_pods = [], ec_failing = [],
                                ec_unresolved = [], ec_denied = [(''create'', ''e2e'')]\<rparr>
               \<lparr>calls := [SecretsDelete ''ns'' ''e2e'' None,
                          SecretsCreate ''ns'' \<lparr>sec_Name = ''e2e''\<rparr>
                            (Some (StatusError ''Forbidden'' ''e2e''))]\<rparr>)"
    using Run_recreates_secret [where d = example_deps and s = "example_test [] [] [] []"
        and st = "example_state_in \<lparr>ec_secrets = [''e2e''], ec_pods = [], ec_failing = [],
                           ec_unresolved = [], ec_denied = [(''create'', ''e2e'')]\<rparr>"
        and ?st1.0 = "example_state_in \<lparr>ec_secrets = [''e2e''], ec_pods = [], ec_failing = [],
                           ec_unresolved = [], ec_denied = [(''create'', ''e2e'')]\<rparr>"
        and del = None
        and ?w1.0 = "\<lparr>ec_secrets = [], ec_pods = [], ec_failing = [],
                           ec_unresolved = [], ec_denied = [(''create'', ''e2e'')]\<rparr>"
        and cr = "Some (StatusError ''Forbidden'' ''e2e'')"
        and ?w2.0 = "\<lparr>ec_secrets = [], ec_pods = [], ec_failing = [],
                           ec_unresolved = [], ec_denied = [(''create'', ''e2e'')]\<rparr>"]
    by (simp add: checkProfile_def example_deps_def example_test_def example_state_in_def)
qed

subsection \<open>The three phases\<close>

text \<open>
  C1, as the code has it. When the results secret cannot be created, \<^verbatim>\<open>Run\<close> returns that
  error, which is no aggregate of phase errors, and executes no step of any phase: the trace
  holds the delete and the create of the secret and no call for a pod.
\<close>

theorem Run_no_phase_counterexample:
  "Run example_deps
     (example_test [] [example_step ''a'' ''src''] [example_step ''b'' ''img'']
        [example_step ''c'' ''src''])
     False
     (example_state_in \<lparr>ec_secrets = [], ec_pods = [], ec_failing = [], ec_unresolved = [],
                         ec_denied = [(''create'', ''e2e'')]\<rparr>)
   = Some (Some (Errorf ''failed to create secret: %v'' [V (StatusError ''Forbidden'' ''e2e'')]),
           example_state_in \<lparr>ec_secrets = [], ec_pods = [], ec_failing = [], ec_unresolved = [],
                              ec_denied = [(''create'', ''e2e'')]\<rparr>
             \<lparr>calls := [SecretsDelete ''ns'' ''e2e'' (Some (StatusError ''NotFound'' ''e2e'')),
                        SecretsCreate ''ns'' \<lparr>sec_Name = ''e2e''\<rparr>
                          (Some (StatusError ''Forbidden'' ''e2e''))]\<rparr>)"
  by (simp add: Run_def checkProfile_def createSecret_def example_deps_def
      example_test_def example_state_in_def Let_def)

text \<open>
  C1, amended. Once the cluster-profile checks and the creation of the results secret have
  succeeded, and as long as no phase panics while its pods are synthesized, \<^verbatim>\<open>Run\<close> runs the
  pre steps with short-circuit. If they return an error, the test steps are not run: the
  post steps run without short-circuit from the state the pre steps left. If they return no
  error, the test steps run with short-circuit and then the post steps without. The result
  is the aggregate of the errors of the phases that returned one, each wrapped with the
  name of its phase, in the order pre, test, post; the empty aggregate is \<^verbatim>\<open>nil\<close>.
\<close>

theorem Run_phases:
  assumes "checkProfile d s (st\<lparr>dry := dryRun\<rparr>) = (None, st1)"
    and "createSecret d s st1 = (None, st2)"
    and "runSteps d s (pre s) True st2 = Some (rpre, st3)"
  shows "(\<forall>err rpost st4.
            rpre = Some err \<and> runSteps d s (post s) False st3 = Some (rpost, st4) \<longrightarrow>
            Run d s dryRun st =
              Some (NewAggregate
                     (Errorf ''%q pre steps failed: %v'' [Q (name s), V err]
                      # (case rpost of None \<Rightarrow> []
                         | Some e \<Rightarrow> [Errorf ''%q post steps failed: %v'' [Q (name s), V e]])),
                    st4))
     \<and> (\<forall>rtest st4 rpost st5.
            rpre = None \<and> runSteps d s (test s) True st3 = Some (rtest, st4)
              \<and> runSteps d s (post s) False st4 = Some (rpost, st5) \<longrightarrow>
            Run d s dryRun st =
              Some (NewAggregate
                     ((case rtest of None \<Rightarrow> []
                       | Some e \<Rightarrow> [Errorf ''%q test steps failed: %v'' [Q (name s), V e]])
                      @ (case rpost of None \<Rightarrow> []
                         | Some e \<Rightarrow> [Errorf ''%q post steps failed: %v'' [Q (name s), V e]])),
                    st5))
     \<and> NewAggregate [] = None"
  using assms
  by (auto simp: Run_def NewAggregate_def Let_def split: option.splits)


lemmas example_run_defs =
  runSteps_def generatePods_def runPods_def runPod_def podNotifier_def NewAggregate_def
  createSecret_def checkProfile_def Description_def example_defs

theorem Run_phases_witness:
  "map_option fst
     (Run example_deps
        (example_test [] [example_step ''a'' ''src''] [example_step ''b'' ''img'']
           [example_step ''c'' ''src''])
        False (example_state [] [''e2e-a'']))
   = Some (Some (Aggregate
        [Errorf ''%q pre steps failed: %v''
           [Q ''e2e'',
            V (Aggregate [Errorf ''%q pod %q failed: %v''
                            [Q ''e2e'', Q ''e2e-a'', V (Plain ''pod failed'')]])]]))
   \<and> map_option (\<lambda>r. ec_pods (cluster (snd r)))
       (Run example_deps
          (example_test [] [example_step ''a'' ''src''] [example_step ''b'' ''img'']
             [example_step ''c'' ''src''])
          False (example_state [] [''e2e-a'']))
     = Some [''e2e-a'', ''e2e-c'']
   \<and> map_option (\<lambda>r. (fst r, ec_pods (cluster (snd r))))
       (Run example_deps
          (example_test [] [example_step ''a'' ''src''] [example_step ''b'' ''img'']
             [example_step ''c'' ''src''])
          False (example_state [] []))
     = Some (None, [''e2e-a'', ''e2e-b'', ''e2e-c''])"
proof -
  let ?s = "example_test [] [example_step ''a'' ''src''] [example_step ''b'' ''img'']
              [example_step ''c'' ''src'']"
  have failing: "map_option fst (Run example_deps ?s False (example_state [] [''e2e-a'']))
      = Some (Some (Aggregate
          [Errorf ''%q pre steps failed: %v''
             [Q ''e2e'',
              V (Aggregate [Errorf ''%q pod %q failed: %v''
                              [Q ''e2e'', Q ''e2e-a'', V (Plain ''pod failed'')]])]]))
    \<and> map_option (\<lambda>r. ec_pods (cluster (snd r)))
         (Run example_deps ?s False (example_state [] [''e2e-a'']))
      = Some [''e2e-a'', ''e2e-c'']"
  proof -
    let ?st = "example_state [] [''e2e-a'']"
    have cp: "checkProfile example_deps ?s (?st\<lparr>dry := False\<rparr>) = (None, ?st)"
      by (simp add: checkProfile_def example_test_def example_state_def example_state_in_def)
    define st2 where "st2 = snd (createSecret example_deps ?s ?st)"
    have cs: "createSecret example_deps ?s ?st = (None, st2)"
      by (simp add: st2_def example_run_defs)
    define st3 where "st3 = snd (the (runSteps example_deps ?s (pre ?s) True st2))"
    have pre: "runSteps example_deps ?s (pre ?s) True st2
        = Some (Some (Aggregate [Errorf ''%q pod %q failed: %v''
                                   [Q ''e2e'', Q ''e2e-a'', V (Plain ''pod failed'')]]), st3)"
      by (simp add: st3_def st2_def example_run_defs)
    define st4 where "st4 = snd (the (runSteps example_deps ?s (post ?s) False st3))"
    have post: "runSteps example_deps ?s (post ?s) False st3 = Some (None, st4)"
      by (simp add: st4_def st3_def st2_def example_run_defs)
    have pods: "ec_pods (cluster st4) = [''e2e-a'', ''e2e-c'']"
      by (simp add: st4_def st3_def st2_def example_run_defs)
    from Run_phases [OF cp cs pre] post
    have "Run example_deps ?s False ?st
        = Some (NewAggregate
                  [Errorf ''%q pre steps failed: %v''
                     [Q (name ?s),
                      V (Aggregate [Errorf ''%q pod %q failed: %v''
                                      [Q ''e2e'', Q ''e2e-a'', V (Plain ''pod failed'')]])]], st4)"
      by simp
    with pods show ?thesis
      by (simp add: NewAggregate_def example_test_def)
  qed
  have passing: "map_option (\<lambda>r. (fst r, ec_pods (cluster (snd r))))
         (Run example_deps ?s False (example_state [] []))
      = Some (None, [''e2e-a'', ''e2e-b'', ''e2e-c''])"
  proof -
    let ?st = "example_state [] []"
    have cp: "checkProfile example_deps ?s (?st\<lparr>dry := False\<rparr>) = (None, ?st)"
      by (simp add: checkProfile_def example_test_def example_state_def example_state_in_def)
    define st2 where "st2 = snd (createSecret example_deps ?s ?st)"
    have cs: "createSecret example_deps ?s ?st = (None, st2)"
      by (simp add: st2_def example_run_defs)
    define st3 where "st3 = snd (the (runSteps example_deps ?s (pre ?s) True st2))"
    have pre: "runSteps example_deps ?s (pre ?s) True st2 = Some (None, st3)"
      by (simp add: st3_def st2_def example_run_defs)
    define st4 where "st4 = snd (the (runSteps example_deps ?s (test ?s) True st3))"
    have tst: "runSteps example_deps ?s (test ?s) True st3 = Some (None, st4)"
      by (simp add: st4_def st3_def st2_def example_run_defs)
    define st5 where "st5 = snd (the (runSteps example_deps ?s (post ?s) False st4))"
    have post: "runSteps example_deps ?s (post ?s) False st4 = Some (None, st5)"
      by (simp add: st5_def st4_def st3_def st2_def example_run_defs)
    have pods: "ec_pods (cluster st5) = [''e2e-a'', ''e2e-b'', ''e2e-c'']"
      by (simp add: st5_def st4_def st3_def st2_def example_run_defs)
    from Run_phases [OF cp cs pre] tst post
    have "Run example_deps ?s False ?st = Some (NewAggregate [], st5)"
      by simp
    with pods show ?thesis
      by (simp add: NewAggregate_def)
  qed
  from failing passing show ?thesis by simp
qed

subsection \<open>Dry-run mode\<close>

lemma runPod_dry:
  "dry st \<Longrightarrow> runPod d s pod notifier st = (None, st\<lparr>logged := logged st @ [PodObject pod]\<rparr>)"
  by (simp add: runPod_def)

lemma runPods_loop_dry:
  "dry st \<Longrightarrow> runPods_loop d s shortCircuit pods errs st
     = (errs, st\<lparr>logged := logged st @ map PodObject pods\<rparr>)"
  by (induction pods arbitrary: st) (simp_all add: runPod_dry)

text \<open>
  C9. In dry-run mode \<^verbatim>\<open>createSecret\<close> hands the secret named after the test to the dry-run
  logger and returns no error; \<^verbatim>\<open>runPod\<close> hands the pod to the logger and returns no error;
  \<^verbatim>\<open>runPods\<close> hands every pod to the logger, in order, and returns no error, with or without
  short-circuit; and the cleanup that \<^verbatim>\<open>runPods\<close> starts on cancellation does nothing.
  In each case the cluster, the trace of calls and all the rest of the run state are as
  before: no create, delete or wait call is issued.
\<close>

theorem dry_run_no_cluster_call:
  assumes "dry st"
  shows "createSecret d s st = (None, st\<lparr>logged := logged st @ [SecretObject \<lparr>sec_Name = name s\<rparr>]\<rparr>)
     \<and> runPod d s pod notifier st = (None, st\<lparr>logged := logged st @ [PodObject pod]\<rparr>)
     \<and> runPods d s pods shortCircuit st = (None, st\<lparr>logged := logged st @ map PodObject pods\<rparr>)
     \<and> runPods_onCancel d s st = st"
  using assms
  by (simp add: createSecret_def runPod_dry runPods_def runPods_loop_dry NewAggregate_def
      runPods_onCancel_def)

theorem dry_run_no_cluster_call_witness:
  "createSecret example_deps (example_test [] [] [] []) ((example_state [] [])\<lparr>dry := True\<rparr>)
     = (None, (example_state [] [])\<lparr>dry := True, logged := [SecretObject \<lparr>sec_Name = ''e2e''\<rparr>]\<rparr>)
   \<and> runPods example_deps (example_test [] [] [] [])
       [example_pod ''e2e-a'', example_pod ''e2e-b''] True
       ((example_state [] [''e2e-a''])\<lparr>dry := True\<rparr>)
     = (None, (example_state [] [''e2e-a''])
          \<lparr>dry := True,
           logged := [PodObject (example_pod ''e2e-a''), PodObject (example_pod ''e2e-b'')]\<rparr>)"
  using dry_run_no_cluster_call [where st = "(example_state [] [])\<lparr>dry := True\<rparr>"
      and d = example_deps and s = "example_test [] [] [] []" and pods = "[]"]
    dry_run_no_cluster_call [where st = "(example_state [] [''e2e-a''])\<lparr>dry := True\<rparr>"
      and d = example_deps and s = "example_test [] [] [] []" and shortCircuit = True
      and pods = "[example_pod ''e2e-a'', example_pod ''e2e-b'']"]
  by (simp add: example_state_def example_state_in_def example_test_def)

subsection \<open>Executing the pods of a phase\<close>







subsection \<open>Subtests of a failed pod\<close>

text \<open>
  Whenever the wait for a pod returns an error, \<^verbatim>\<open>runPod\<close> returns before it reads the
  notifier: the subtests of the step are what they were, whatever the notifier recorded.
\<close>

lemma runPod_failed_wait_drops_subtests:
  assumes "\<not> dry st"
    and "createOrRestartPod d (Namespace (jobSpec s)) pod (cluster st) = (None, w)"
    and "waitForPodCompletion d (Namespace (jobSpec s)) (p_Name pod) notifier w
           = ((Some err, notifier'), w')"
  shows "runPod d s pod notifier st =
       (Some (Errorf ''%q pod %q failed: %v'' [Q (name s), Q (p_Name pod), V err]),
        st\<lparr>cluster := w',
           calls := calls st @ [CreateOrRestartPod (Namespace (jobSpec s)) pod None,
                                WaitForPodCompletion (Namespace (jobSpec s)) (p_Name pod)
                                  (Some err)]\<rparr>)"
  using assms by (simp add: runPod_def Let_def)

text \<open>
  C8, as the code has it. The pod \<^verbatim>\<open>e2e-a\<close> is created, its container starts and the pod
  ends in failure; the notifier has recorded one test case for the container, with its
  failure output. \<^verbatim>\<open>runPod\<close> returns the error of the pod and the subtests of the step stay
  empty. The same pod, when it succeeds, leaves its test case in the subtests.
\<close>

theorem runPod_failed_pod_unreported:
  "waitForPodCompletion example_deps ''ns'' ''e2e-a'' []
       ((cluster (example_state [] [''e2e-a'']))\<lparr>ec_pods := [''e2e-a'']\<rparr>)
     = ((Some (Plain ''pod failed''),
         [\<lparr>tc_Name = ''container test'', tc_FailureOutput = Some ''exit 1''\<rparr>]),
        (cluster (example_state [] [''e2e-a'']))\<lparr>ec_pods := [''e2e-a'']\<rparr>)
   \<and> fst (runPod example_deps (example_test [] [] [] []) (example_pod ''e2e-a'') []
            (example_state [] [''e2e-a'']))
     = Some (Errorf ''%q pod %q failed: %v'' [Q ''e2e'', Q ''e2e-a'', V (Plain ''pod failed'')])
   \<and> SubTests (snd (runPod example_deps (example_test [] [] [] []) (example_pod ''e2e-a'') []
                       (example_state [] [''e2e-a''])))
     = []
   \<and> SubTests (snd (runPod example_deps (example_test [] [] [] []) (example_pod ''e2e-a'') []
                       (example_state [] [])))
     = [\<lparr>tc_Name = ''Run multi-stage test e2e - e2e-a container test'',
         tc_FailureOutput = None\<rparr>]"
  by (simp add: SubTests_def example_run_defs example_pod_def)

end
